theory Spec2Isabelle
  imports Complex_Main "HOL-Library.AList"
begin

section \<open>Data model\<close>

text \<open>
  Python objects have identity and are mutated in place, and several claims depend on
  which object a write goes to. Objects are therefore addressed by references into
  explicit stores; comparing two objects (\<^verbatim>\<open>c != c_rep\<close>, \<^verbatim>\<open>c in F.coefficients()\<close>,
  dictionary keys) is comparing their references.
\<close>

type_synonym ref = nat

datatype error = NotImplementedError | AttributeError | IndexError

text \<open>
  The classes tested by \<^verbatim>\<open>isinstance\<close> in \<^verbatim>\<open>SolveBlock.evaluate_adj\<close>. The overloaded
  \<^verbatim>\<open>Function\<close> and \<^verbatim>\<open>DirichletBC\<close> are subclasses of the backend classes, so an
  overloaded object passes the test of its backend class.
\<close>

datatype kind = KFunction | KConstant | KDirichletBC | KExpression | KOther

text \<open>
  The two directions \<^verbatim>\<open>evaluate_adj\<close> differentiates in:
  \<^verbatim>\<open>backend.TrialFunction(V)\<close> and \<^verbatim>\<open>backend.Constant(1)\<close>.
\<close>

datatype direction = TrialFunction nat | ConstantOne

text \<open>
  The two sides of an equation, and everything the symbolic backend operations build
  from them. \<open>Form n cs\<close> is a \<^verbatim>\<open>ufl.Form\<close> with coefficients \<open>cs\<close>; \<open>Number k\<close> is a
  Python number, the one kind of side that is not a \<^verbatim>\<open>ufl.Form\<close> (as in \<^verbatim>\<open>F == 0\<close>).
  The other constructors are the unevaluated results of \<^verbatim>\<open>backend.action\<close>, \<^verbatim>\<open>-\<close>,
  \<^verbatim>\<open>backend.replace\<close>, \<^verbatim>\<open>backend.derivative\<close> and unary minus: the backend is an
  external collaborator, so what it returns is kept as the term that was asked for.
\<close>

datatype form =
    Form nat "ref list"
  | Number int
  | Action form ref
  | Sub form form
  | Replace form "(ref \<times> ref) list"
  | Derivative form ref direction
  | Negated form

fun is_Form :: "form \<Rightarrow> bool" where
  "is_Form (Number k) = False"
| "is_Form f = True"

fun coefficients :: "form \<Rightarrow> ref list" where
  "coefficients (Form n cs) = cs"
| "coefficients (Number k) = []"
| "coefficients (Action a u) = coefficients a @ [u]"
| "coefficients (Sub a b) = coefficients a @ coefficients b"
| "coefficients (Replace f m) =
     map (\<lambda>c. case map_of m c of Some d \<Rightarrow> d | None \<Rightarrow> c) (coefficients f)"
| "coefficients (Derivative f c d) = coefficients f"
| "coefficients (Negated f) = coefficients f"

text \<open>
  Numerical values held by the backend: the entries of vectors and matrices are not
  computed, a value is the term of backend operations that produced it.
  \<open>PyNum x\<close> is a Python \<^verbatim>\<open>int\<close> or \<^verbatim>\<open>float\<close>; \<open>PyNum 0\<close> is the zero an adjoint
  accumulator starts from.
\<close>

datatype bval =
    PyNum real
  | Vec "real list"
  | ZeroVec nat
  | Assembled form
  | Applied "(nat \<times> real) list" bval
  | AppliedNew nat bval nat bval
  | Transposed bval
  | RowsZeroed "nat list" bval
  | Solved bval bval bval
  | MatVec bval bval
  | Inner bval bval
  | Added bval bval
  | SpacePair bval nat
  | EqSolved form form "bval list" "(nat \<times> real) list list"

text \<open>
  An overloaded value (\<^verbatim>\<open>Function\<close>, \<^verbatim>\<open>Constant\<close>, \<^verbatim>\<open>DirichletBC\<close>, \<^verbatim>\<open>Expression\<close>):
  its class, its function space, its numerical content, the prescribed values of a
  boundary condition (degree of freedom and value, as \<^verbatim>\<open>get_boundary_values()\<close> returns
  them) and the sub-domain of a boundary condition. An object that is not a boundary
  condition prescribes no values.
\<close>

record obj =
  kind :: kind
  space :: nat
  vec :: bval
  boundary_values :: "(nat \<times> real) list"
  sub_domain :: nat

record BlockOutput =
  bo_output :: ref
  checkpoint :: "ref option"
  adj_value :: bval

record block =
  dependencies :: "ref list"
  outputs :: "ref list"

record solve_block = block +
  lhs :: form
  rhs :: form
  func :: ref
  bcs :: "ref list"
  linear :: bool

datatype tape_entry = ASolveBlock solve_block | AnAssignBlock block

text \<open>
  What a run does, in the order it does it: the calls into the numerical backend (the
  functions of the \<^verbatim>\<open>backend\<close> module that do symbolic or numerical work and the methods
  that change a backend object in place; constructors and accessors are not recorded)
  and the two recording steps \<^verbatim>\<open>tape.add_block\<close> and \<^verbatim>\<open>block.add_output\<close>.
\<close>

datatype arg0 = Equation form form | NotEquation bval

datatype bcs_arg = BCList "ref list" | BCSingle ref

datatype event =
    CallAction form ref
  | CallReplace form "(ref \<times> ref) list"
  | CallDerivative form ref direction
  | CallAssemble form
  | CallHomogenize ref
  | CallApply ref bval
  | CallApplyNew nat bval nat bval
  | CallTranspose bval
  | CallZero bval "nat list"
  | CallSolveLinear bval bval bval
  | CallSolve arg0 ref "bcs_arg option"
  | CallAssign ref ref
  | AddBlock
  | AddOutput ref

text \<open>
  The program state: the store of overloaded values, the store of BlockOutputs, the
  BlockOutput currently attached to each value (its \<^verbatim>\<open>block_output\<close> attribute), the next
  unused reference, the working tape and the trace.
\<close>

record state =
  objs :: "ref \<Rightarrow> obj"
  bos :: "ref \<Rightarrow> BlockOutput"
  block_output_of :: "ref \<Rightarrow> ref"
  fresh :: ref
  tape :: "tape_entry list"
  trace :: "event list"

definition call :: "event \<Rightarrow> state \<Rightarrow> state" where
  "call e s = s\<lparr>trace := trace s @ [e]\<rparr>"

definition new_obj :: "obj \<Rightarrow> state \<Rightarrow> ref \<times> state" where
  "new_obj x s = (fresh s, s\<lparr>objs := (objs s)(fresh s := x), fresh := Suc (fresh s)\<rparr>)"

section \<open>SolveBlock construction\<close>

text \<open>
  The positional arguments of \<^verbatim>\<open>solve\<close> and \<^verbatim>\<open>SolveBlock\<close>: \<^verbatim>\<open>args[0]\<close> (an equation
  or, for a linear-algebra solve, a matrix), \<^verbatim>\<open>args[1]\<close> (the unknown) and the optional
  \<^verbatim>\<open>args[2]\<close> (a list of boundary conditions, or a single object).
\<close>

record solve_args =
  eq :: arg0
  unknown :: ref
  third :: "bcs_arg option"

text \<open>
  Modelled from the spec: \<^verbatim>\<open>Block.add_dependency\<close> (\<^verbatim>\<open>pyadjoint.block\<close> is not among
  the sources). The dependencies of a block are an ordered sequence of BlockOutput
  references, duplicates allowed.
\<close>

definition add_dependency :: "ref \<Rightarrow> 'a block_scheme \<Rightarrow> 'a block_scheme" where
  "add_dependency d b = b\<lparr>dependencies := dependencies b @ [d]\<rparr>"

text \<open>
  Modelled from the spec: \<^verbatim>\<open>Block.add_output\<close> (\<^verbatim>\<open>pyadjoint.block\<close> is not among the
  sources). The outputs of a block are an ordered sequence of BlockOutput references.
\<close>

definition add_output :: "ref \<Rightarrow> 'a block_scheme \<Rightarrow> 'a block_scheme" where
  "add_output d b = b\<lparr>outputs := outputs b @ [d]\<rparr>"

text \<open>
  Modelled from the spec: \<^verbatim>\<open>OverloadedType.get_block_output\<close>
  (\<^verbatim>\<open>pyadjoint.overloaded_type\<close> is not among the sources): the BlockOutput already
  attached to an input value.
\<close>

definition get_block_output :: "state \<Rightarrow> ref \<Rightarrow> ref" where
  "get_block_output s c = block_output_of s c"

text \<open>
  \<^verbatim>\<open>SolveBlock.__init__\<close>. A side that is not a \<^verbatim>\<open>ufl.Form\<close> is a Python number, which
  has no \<^verbatim>\<open>coefficients\<close> method: the last loop raises \<^verbatim>\<open>AttributeError\<close> when the
  left-hand side is one. The right-hand side's coefficients are read only when both
  sides are forms.
\<close>

definition SolveBlock_init :: "solve_args \<Rightarrow> state \<Rightarrow> error + solve_block" where
  "SolveBlock_init args s =
     (case eq args of
        Equation l r \<Rightarrow>
          (let b0 = \<lparr>dependencies = [], outputs = [], lhs = l, rhs = r, func = unknown args,
                     bcs = (case third args of
                              Some (BCList xs) \<Rightarrow> xs
                            | Some (BCSingle x) \<Rightarrow> [x]
                            | None \<Rightarrow> []),
                     linear = False\<rparr>;
               b1 = (if is_Form l \<and> is_Form r
                     then foldl (\<lambda>b c. add_dependency (get_block_output s c) b)
                            (b0\<lparr>linear := True\<rparr>) (coefficients r)
                     else b0\<lparr>linear := False\<rparr>);
               b2 = foldl (\<lambda>b bc. add_dependency (get_block_output s bc) b) b1 (bcs b1)
           in if is_Form l
              then Inr (foldl (\<lambda>b c. add_dependency (get_block_output s c) b) b2 (coefficients l))
              else Inl AttributeError)
      | NotEquation A \<Rightarrow> Inl NotImplementedError)"

section \<open>BlockOutput\<close>

text \<open>
  Modelled from the spec: \<^verbatim>\<open>BlockOutput.get_saved_output\<close> (\<^verbatim>\<open>pyadjoint\<close>'s own modules
  are not among the sources). It returns the checkpoint; a BlockOutput holds "an
  optional saved checkpoint", and without one the value itself is returned, the case
  \<^verbatim>\<open>SolveBlock.recompute\<close> tests for with \<^verbatim>\<open>c != c_rep\<close>. The checkpoint is returned
  as the object it is: \<^verbatim>\<open>Function._ad_restore_at_checkpoint\<close> returns its argument.
\<close>

definition get_saved_output :: "BlockOutput \<Rightarrow> ref" where
  "get_saved_output bo = (case checkpoint bo of Some c \<Rightarrow> c | None \<Rightarrow> bo_output bo)"

text \<open>
  Modelled from the spec: the accumulation of \<^verbatim>\<open>BlockOutput.add_adj_output\<close>. An
  accumulator that is the zero it started from is replaced by the contribution,
  otherwise the contribution is added; adding the number zero changes no entry.
\<close>

definition add_val :: "bval \<Rightarrow> bval \<Rightarrow> bval" where
  "add_val a v = (if a = PyNum 0 then v else if v = PyNum 0 then a else Added a v)"

text \<open>
  Modelled from the spec: \<^verbatim>\<open>BlockOutput.add_adj_output\<close>. All mutation is local to the
  BlockOutput. \<^verbatim>\<open>get_adj_output\<close> is the field \<open>adj_value\<close>.
\<close>

definition add_adj_output :: "ref \<Rightarrow> bval \<Rightarrow> state \<Rightarrow> state" where
  "add_adj_output d v s =
     s\<lparr>bos := (bos s)(d := (bos s d)\<lparr>adj_value := add_val (adj_value (bos s d)) v\<rparr>)\<rparr>"

text \<open>
  \<^verbatim>\<open>Function._ad_create_checkpoint\<close> is \<^verbatim>\<open>self.copy(deepcopy=True)\<close>: a new object with
  the content of the old one.
\<close>

definition create_checkpoint :: "ref \<Rightarrow> state \<Rightarrow> ref \<times> state" where
  "create_checkpoint r s = new_obj (objs s r) s"

text \<open>
  Modelled from the spec: \<^verbatim>\<open>BlockOutput.save_output\<close> copies the current value into the
  checkpoint.
\<close>

definition save_output :: "ref \<Rightarrow> state \<Rightarrow> state" where
  "save_output d s =
     (let (c, s1) = create_checkpoint (bo_output (bos s d)) s
      in s1\<lparr>bos := (bos s1)(d := (bos s1 d)\<lparr>checkpoint := Some c\<rparr>)\<rparr>)"

text \<open>
  Modelled from the spec: \<^verbatim>\<open>OverloadedType.create_block_output\<close> attaches a fresh
  BlockOutput to a value: no checkpoint yet, the adjoint at its zero.
\<close>

definition create_block_output :: "ref \<Rightarrow> state \<Rightarrow> ref \<times> state" where
  "create_block_output r s =
     (fresh s,
      s\<lparr>bos := (bos s)(fresh s := \<lparr>bo_output = r, checkpoint = None, adj_value = PyNum 0\<rparr>),
        block_output_of := (block_output_of s)(r := fresh s),
        fresh := Suc (fresh s)\<rparr>)"

section \<open>The backend\<close>

text \<open>
  The backend is not part of the repository; what its calls return is kept as the term
  of the call, and what they change in place is written to the store.

  \<^verbatim>\<open>backend.solve(*args)\<close> writes the solution into the unknown. For an equation the
  solution is determined by the equation as passed, the current content of its
  coefficients (the unknown is one of them when the residual is nonlinear: its content
  is the initial guess) and the prescribed values of the boundary conditions; for a
  linear-algebra solve by the matrix, the unknown and the right-hand side.
\<close>

definition bcs_of :: "bcs_arg option \<Rightarrow> ref list" where
  "bcs_of t = (case t of Some (BCList xs) \<Rightarrow> xs | Some (BCSingle x) \<Rightarrow> [x] | None \<Rightarrow> [])"

definition solution :: "arg0 \<Rightarrow> ref \<Rightarrow> bcs_arg option \<Rightarrow> state \<Rightarrow> bval" where
  "solution a u t s =
     (case a of
        Equation l r \<Rightarrow>
          EqSolved l r (map (\<lambda>c. vec (objs s c)) (coefficients l @ coefficients r))
            (map (\<lambda>bc. boundary_values (objs s bc)) (bcs_of t))
      | NotEquation A \<Rightarrow>
          Solved A (vec (objs s u)) (case bcs_of t of [] \<Rightarrow> PyNum 0 | b # _ \<Rightarrow> vec (objs s b)))"

definition backend_solve :: "arg0 \<Rightarrow> ref \<Rightarrow> bcs_arg option \<Rightarrow> state \<Rightarrow> state" where
  "backend_solve a u t s =
     (call (CallSolve a u t) s)\<lparr>objs := (objs s)(u := (objs s u)\<lparr>vec := solution a u t s\<rparr>)\<rparr>"

text \<open>\<^verbatim>\<open>backend.Function.assign(target, source)\<close> copies the content of the source.\<close>

definition Function_assign :: "ref \<Rightarrow> ref \<Rightarrow> state \<Rightarrow> state" where
  "Function_assign t src s =
     (call (CallAssign t src) s)\<lparr>objs := (objs s)(t := (objs s t)\<lparr>vec := vec (objs s src)\<rparr>)\<rparr>"

text \<open>\<^verbatim>\<open>Function(V)\<close>: a new function on the space \<open>V\<close>, all entries zero.\<close>

definition new_Function :: "nat \<Rightarrow> state \<Rightarrow> ref \<times> state" where
  "new_Function V s =
     new_obj \<lparr>kind = KFunction, space = V, vec = ZeroVec V, boundary_values = [],
              sub_domain = 0\<rparr> s"

text \<open>
  \<^verbatim>\<open>bc.homogenize()\<close> zeroes the prescribed values of the object it is called on.
\<close>

definition homogenize :: "ref \<Rightarrow> state \<Rightarrow> state" where
  "homogenize bc s =
     (call (CallHomogenize bc) s)
       \<lparr>objs := (objs s)(bc := (objs s bc)
           \<lparr>boundary_values := map (\<lambda>(k, v). (k, 0)) (boundary_values (objs s bc))\<rparr>)\<rparr>"

section \<open>The annotated solve\<close>

text \<open>
  \<^verbatim>\<open>solve(*args, **kwargs)\<close>. The block appended to the tape is the object that
  \<^verbatim>\<open>add_output\<close> then changes, so the output shows in the last tape entry. An exception
  of the constructor leaves \<^verbatim>\<open>solve\<close> before anything has been written.
\<close>

definition solve :: "solve_args \<Rightarrow> bool \<Rightarrow> state \<Rightarrow> error + state" where
  "solve args annotate_tape s =
     (if annotate_tape
      then (case SolveBlock_init args s of
              Inl e \<Rightarrow> Inl e
            | Inr block \<Rightarrow>
                (let s1 = call AddBlock (s\<lparr>tape := tape s @ [ASolveBlock block]\<rparr>);
                     (block_output, s2) = create_block_output (unknown args) s1;
                     s3 = call (AddOutput block_output)
                            (s2\<lparr>tape := butlast (tape s2) @
                                   [ASolveBlock (add_output block_output block)]\<rparr>)
                 in Inr (backend_solve (eq args) (unknown args) (third args) s3)))
      else Inr (backend_solve (eq args) (unknown args) (third args) s))"

section \<open>SolveBlock.evaluate\_adj\<close>

text \<open>\<^verbatim>\<open>isinstance(dJdu, (int, float)) and dJdu == 0\<close>\<close>

fun is_zero :: "bval \<Rightarrow> bool" where
  "is_zero (PyNum x) = (x = 0)"
| "is_zero v = False"

text \<open>The first loop over the dependencies, filling \<^verbatim>\<open>replaced_coeffs\<close>.\<close>

definition collect_replaced :: "state \<Rightarrow> form \<Rightarrow> ref list \<Rightarrow> (ref \<times> ref) list" where
  "collect_replaced s F_form deps =
     foldl (\<lambda>m d. let coeff = bo_output (bos s d)
                   in if coeff \<in> set (coefficients F_form)
                      then AList.update coeff (get_saved_output (bos s d)) m
                      else m) [] deps"

text \<open>
  The loop over \<^verbatim>\<open>self.bcs\<close>: a \<^verbatim>\<open>DirichletBC\<close> is copied (\<^verbatim>\<open>backend.DirichletBC(bc)\<close>)
  and the copy homogenized; the boundary condition, copy or not, is appended to the
  local list \<^verbatim>\<open>bcs\<close> and applied to \<^verbatim>\<open>dFdu\<close>.
\<close>

fun apply_bcs :: "ref list \<Rightarrow> state \<times> ref list \<times> bval \<Rightarrow> state \<times> ref list \<times> bval" where
  "apply_bcs [] acc = acc"
| "apply_bcs (bc # rest) (s, bcs', dFdu) =
     (let (bc', s1) = (if kind (objs s bc) = KDirichletBC
                       then (let (c, s0) = new_obj (objs s bc) s in (c, homogenize c s0))
                       else (bc, s))
      in apply_bcs rest
           (call (CallApply bc' dFdu) s1, bcs' @ [bc'],
            Applied (boundary_values (objs s1 bc')) dFdu))"

text \<open>\<^verbatim>\<open>backend.solve(dFdu, adj_var.vector(), dJdu)\<close>\<close>

definition solve_linear :: "bval \<Rightarrow> ref \<Rightarrow> bval \<Rightarrow> state \<Rightarrow> state" where
  "solve_linear A x b s =
     (call (CallSolveLinear A (vec (objs s x)) b) s)
       \<lparr>objs := (objs s)(x := (objs s x)\<lparr>vec := Solved A (vec (objs s x)) b\<rparr>)\<rparr>"

text \<open>The rows of all boundary conditions of the local list: \<^verbatim>\<open>bc_rows\<close>.\<close>

definition bc_rows :: "state \<Rightarrow> ref list \<Rightarrow> nat list" where
  "bc_rows s bcs' = concat (map (\<lambda>bc. map fst (boundary_values (objs s bc))) bcs')"

text \<open>
  The body of the second loop over the dependencies, for the dependency \<open>d\<close>: the
  dispatch on the class of its value.
\<close>

definition adj_dependency ::
  "form \<Rightarrow> (ref \<times> ref) list \<Rightarrow> ref list \<Rightarrow> ref \<Rightarrow> nat \<Rightarrow> ref \<Rightarrow> state \<Rightarrow> ref \<Rightarrow> state" where
  "adj_dependency F_form replaced_coeffs bcs' adj_var V fn s d =
     (let c = bo_output (bos s d)
      in if c \<noteq> fn
         then (case kind (objs s c) of
                 KFunction \<Rightarrow>
                   (let c_rep = (case map_of replaced_coeffs c of Some r \<Rightarrow> r | None \<Rightarrow> c);
                        W = TrialFunction (space (objs s c));
                        s1 = call (CallDerivative F_form c_rep W) s;
                        dFdm = Assembled (Negated (Derivative F_form c_rep W));
                        s2 = call (CallAssemble (Negated (Derivative F_form c_rep W))) s1;
                        s3 = call (CallZero dFdm (bc_rows s2 bcs')) s2;
                        s4 = call (CallTranspose (RowsZeroed (bc_rows s2 bcs') dFdm)) s3
                    in add_adj_output d
                         (MatVec (Transposed (RowsZeroed (bc_rows s2 bcs') dFdm))
                            (vec (objs s4 adj_var))) s4)
               | KConstant \<Rightarrow>
                   (let s1 = call (CallDerivative F_form c ConstantOne) s;
                        s2 = call (CallAssemble (Negated (Derivative F_form c ConstantOne))) s1;
                        (s3, dFdm) =
                          foldl (\<lambda>(st, v) bc. (call (CallApply bc v) st,
                                                 Applied (boundary_values (objs st bc)) v))
                            (s2, Assembled (Negated (Derivative F_form c ConstantOne))) bcs'
                    in add_adj_output d (Inner dFdm (vec (objs s3 adj_var))) s3)
               | KDirichletBC \<Rightarrow>
                   (let (adj_output, s1) = new_Function V s;
                        g = vec (objs s1 adj_var);
                        s2 = (call (CallApplyNew V g (sub_domain (objs s1 c))
                                      (vec (objs s1 adj_output))) s1)
                               \<lparr>objs := (objs s1)(adj_output := (objs s1 adj_output)
                                   \<lparr>vec := AppliedNew V g (sub_domain (objs s1 c))
                                             (vec (objs s1 adj_output))\<rparr>)\<rparr>
                    in add_adj_output d (vec (objs s2 adj_output)) s2)
               | KExpression \<Rightarrow>
                   (let c_rep = (case map_of replaced_coeffs c of Some r \<Rightarrow> r | None \<Rightarrow> c);
                        W = TrialFunction V;
                        s1 = call (CallDerivative F_form c_rep W) s;
                        dFdm = Assembled (Negated (Derivative F_form c_rep W));
                        s2 = call (CallAssemble (Negated (Derivative F_form c_rep W))) s1;
                        s3 = call (CallZero dFdm (bc_rows s2 bcs')) s2;
                        s4 = call (CallTranspose (RowsZeroed (bc_rows s2 bcs') dFdm)) s3
                    in add_adj_output d
                         (SpacePair (MatVec (Transposed (RowsZeroed (bc_rows s2 bcs') dFdm))
                                       (vec (objs s4 adj_var))) V) s4)
               | KOther \<Rightarrow> s)
         else s)"

text \<open>
  \<^verbatim>\<open>SolveBlock.evaluate_adj\<close>. The early \<^verbatim>\<open>return\<close> is the branch \<open>is_zero dJdu\<close>; it
  comes after the Jacobian has been differentiated and assembled.
\<close>

definition SolveBlock_evaluate_adj :: "solve_block \<Rightarrow> state \<Rightarrow> error + state" where
  "SolveBlock_evaluate_adj b s =
     (case outputs b of
        [] \<Rightarrow> Inl IndexError
      | fwd_block_output # _ \<Rightarrow>
          (let u = bo_output (bos s fwd_block_output);
               V = space (objs s u);
               (adj_var, s1) = new_Function V s;
               (tmp_u, F_form, s2) =
                 (if linear b
                  then (let (t, s0) = new_Function (space (objs s1 (func b))) s1
                        in (t, Sub (Action (lhs b) t) (rhs b), call (CallAction (lhs b) t) s0))
                  else (func b, lhs b, s1));
               saved = get_saved_output (bos s2 fwd_block_output);
               replaced_coeffs =
                 AList.update tmp_u saved (collect_replaced s2 F_form (dependencies b));
               s3 = call (CallReplace F_form replaced_coeffs) s2;
               F = Replace F_form replaced_coeffs;
               s4 = call (CallDerivative F saved (TrialFunction V)) s3;
               s5 = call (CallAssemble (Derivative F saved (TrialFunction V))) s4;
               dJdu = adj_value (bos s5 fwd_block_output)
           in if is_zero dJdu
              then Inr s5
              else (let (s6, bcs', dFdu) =
                          apply_bcs (bcs b)
                            (s5, [], Assembled (Derivative F saved (TrialFunction V)));
                        s7 = call (CallTranspose dFdu) s6;
                        s8 = solve_linear (Transposed dFdu) adj_var dJdu s7
                    in Inr (foldl (adj_dependency F replaced_coeffs bcs' adj_var V (func b))
                              s8 (dependencies b)))))"

section \<open>SolveBlock.recompute\<close>

text \<open>
  The body of the loop over the dependencies: it fills the two replacement dictionaries
  and redirects \<^verbatim>\<open>func\<close> to the saved output when the block's own function is a
  coefficient of the left-hand side with a saved output that is another object.
\<close>

definition recompute_step ::
  "solve_block \<Rightarrow> state \<Rightarrow> ref \<times> (ref \<times> ref) list \<times> (ref \<times> ref) list \<Rightarrow> ref
     \<Rightarrow> ref \<times> (ref \<times> ref) list \<times> (ref \<times> ref) list" where
  "recompute_step b s acc d =
     (case acc of (fn, replace_lhs_coeffs, replace_rhs_coeffs) \<Rightarrow>
        (let c = bo_output (bos s d);
             c_rep = get_saved_output (bos s d)
         in if c \<noteq> c_rep
            then (let (fn1, l1) =
                        (if c \<in> set (coefficients (lhs b))
                         then (if c = func b then c_rep else fn,
                               AList.update c c_rep replace_lhs_coeffs)
                         else (fn, replace_lhs_coeffs));
                      r1 = (if linear b \<and> c \<in> set (coefficients (rhs b))
                            then AList.update c c_rep replace_rhs_coeffs
                            else replace_rhs_coeffs)
                  in (fn1, l1, r1))
            else acc))"

text \<open>
  The loop itself: it starts from \<^verbatim>\<open>func = self.func\<close> and two empty dictionaries and
  runs over \<^verbatim>\<open>self.get_dependencies()\<close>.
\<close>

definition recompute_loop ::
  "solve_block \<Rightarrow> state \<Rightarrow> ref \<times> (ref \<times> ref) list \<times> (ref \<times> ref) list" where
  "recompute_loop b s = foldl (recompute_step b s) (func b, [], []) (dependencies b)"

text \<open>
  \<^verbatim>\<open>SolveBlock.recompute\<close>: the equation is rebuilt with the collected replacements,
  solved for \<^verbatim>\<open>func\<close> (the block's function or the saved output that replaced it), and
  a copy of \<^verbatim>\<open>func\<close> becomes the checkpoint of the block's first output.
\<close>

definition SolveBlock_recompute :: "solve_block \<Rightarrow> state \<Rightarrow> error + state" where
  "SolveBlock_recompute b s =
     (case recompute_loop b s of
        (fn, replace_lhs_coeffs, replace_rhs_coeffs) \<Rightarrow>
          (let s1 = call (CallReplace (lhs b) replace_lhs_coeffs) s;
               (rhs', s2) =
                 (if linear b
                  then (Replace (rhs b) replace_rhs_coeffs,
                        call (CallReplace (rhs b) replace_rhs_coeffs) s1)
                  else (Number 0, s1));
               s3 = backend_solve (Equation (Replace (lhs b) replace_lhs_coeffs) rhs') fn
                      (Some (BCList (bcs b))) s2;
               (cp, s4) = create_checkpoint fn s3
           in case outputs b of
                [] \<Rightarrow> Inl IndexError
              | out # _ \<Rightarrow>
                  Inr (s4\<lparr>bos := (bos s4)(out := (bos s4 out)\<lparr>checkpoint := Some cp\<rparr>)\<rparr>)))"

section \<open>AssignBlock\<close>

text \<open>\<^verbatim>\<open>AssignBlock.__init__(func, other)\<close>\<close>

definition AssignBlock_init :: "ref \<Rightarrow> ref \<Rightarrow> state \<Rightarrow> block \<times> state" where
  "AssignBlock_init fn other s =
     (let b0 = \<lparr>dependencies = [], outputs = []\<rparr>;
          b1 = add_dependency (get_block_output s fn) b0;
          b2 = add_dependency (get_block_output s other) b1;
          s1 = save_output (get_block_output s fn) s;
          s2 = save_output (get_block_output s1 other) s1;
          (block_output, s3) = create_block_output fn s2
      in (add_output block_output b2, call (AddOutput block_output) s3))"

text \<open>
  \<^verbatim>\<open>AssignBlock.evaluate_adj\<close>: \<^verbatim>\<open>get_outputs()[0]\<close> and \<^verbatim>\<open>get_dependencies()[1]\<close> raise
  \<^verbatim>\<open>IndexError\<close> on a list that is too short.
\<close>

definition AssignBlock_evaluate_adj :: "block \<Rightarrow> state \<Rightarrow> error + state" where
  "AssignBlock_evaluate_adj b s =
     (case outputs b of
        [] \<Rightarrow> Inl IndexError
      | out # _ \<Rightarrow>
          (let adj_input = adj_value (bos s out)
           in case dependencies b of
                _ # src # _ \<Rightarrow> Inr (add_adj_output src adj_input s)
              | _ \<Rightarrow> Inl IndexError))"

text \<open>\<^verbatim>\<open>AssignBlock.recompute\<close>\<close>

definition AssignBlock_recompute :: "block \<Rightarrow> state \<Rightarrow> error + state" where
  "AssignBlock_recompute b s =
     (case dependencies b of
        _ # other_bo # _ \<Rightarrow>
          (case outputs b of
             [] \<Rightarrow> Inl IndexError
           | out # _ \<Rightarrow>
               Inr (Function_assign (get_saved_output (bos s out))
                      (get_saved_output (bos s other_bo)) s))
      | _ \<Rightarrow> Inl IndexError)"

text \<open>\<^verbatim>\<open>Function.assign(self, other)\<close> of the overloaded \<^verbatim>\<open>Function\<close>.\<close>

definition assign :: "ref \<Rightarrow> ref \<Rightarrow> bool \<Rightarrow> state \<Rightarrow> state" where
  "assign self other annotate_tape s =
     (let s2 = (if annotate_tape
                then (let (block, s1) = AssignBlock_init self other s
                      in call AddBlock (s1\<lparr>tape := tape s1 @ [AnAssignBlock block]\<rparr>))
                else s)
      in Function_assign self other s2)"

section \<open>Blocks on the tape\<close>

text \<open>The two methods every block has, dispatched on the class of the block.\<close>

fun evaluate_adj :: "tape_entry \<Rightarrow> state \<Rightarrow> error + state" where
  "evaluate_adj (ASolveBlock b) s = SolveBlock_evaluate_adj b s"
| "evaluate_adj (AnAssignBlock b) s = AssignBlock_evaluate_adj b s"

fun recompute :: "tape_entry \<Rightarrow> state \<Rightarrow> error + state" where
  "recompute (ASolveBlock b) s = SolveBlock_recompute b s"
| "recompute (AnAssignBlock b) s = AssignBlock_recompute b s"

section \<open>Example inputs\<close>

text \<open>
  A small recording in the shape of the Burgers test: a function \<open>u\<close> (object 0), a
  function \<open>u_\<close> (object 1) and a Dirichlet boundary condition (object 2) that prescribes
  the value 5 at degree of freedom 0, each with its first BlockOutput (3, 4 and 5).
\<close>

definition default_obj :: obj where
  "default_obj =
     \<lparr>kind = KOther, space = 0, vec = PyNum 0, boundary_values = [], sub_domain = 0\<rparr>"

definition ex_init :: state where
  "ex_init =
     \<lparr>objs = (\<lambda>r. default_obj)
        (0 := \<lparr>kind = KFunction, space = 7, vec = Vec [1, 2], boundary_values = [],
                sub_domain = 0\<rparr>,
         1 := \<lparr>kind = KFunction, space = 7, vec = Vec [3, 4], boundary_values = [],
                sub_domain = 0\<rparr>,
         2 := \<lparr>kind = KDirichletBC, space = 7, vec = PyNum 0, boundary_values = [(0, 5)],
                sub_domain = 1\<rparr>),
      bos = (\<lambda>r. \<lparr>bo_output = r, checkpoint = None, adj_value = PyNum 0\<rparr>)
        (3 := \<lparr>bo_output = 0, checkpoint = None, adj_value = PyNum 0\<rparr>,
         4 := \<lparr>bo_output = 1, checkpoint = None, adj_value = PyNum 0\<rparr>,
         5 := \<lparr>bo_output = 2, checkpoint = None, adj_value = PyNum 0\<rparr>),
      block_output_of = (\<lambda>r. r)(0 := 3, 1 := 4, 2 := 5),
      fresh = 6, tape = [], trace = []\<rparr>"

text \<open>\<^verbatim>\<open>solve(F == 0, u, bc)\<close> with \<open>F\<close> a form in \<open>u\<close> and \<open>u_\<close>.\<close>

definition ex_args :: solve_args where
  "ex_args =
     \<lparr>eq = Equation (Form 0 [0, 1]) (Number 0), unknown = 0, third = Some (BCSingle 2)\<rparr>"

text \<open>\<^verbatim>\<open>solve(a == L, u, [bc])\<close> with a bilinear \<open>a\<close> and a linear \<open>L\<close> in \<open>u_\<close>.\<close>

definition ex_linear_args :: solve_args where
  "ex_linear_args =
     \<lparr>eq = Equation (Form 1 []) (Form 2 [1]), unknown = 0, third = Some (BCList [2])\<rparr>"

text \<open>\<^verbatim>\<open>solve(A, x, b)\<close>: a linear-algebra solve.\<close>

definition ex_matrix_args :: solve_args where
  "ex_matrix_args =
     \<lparr>eq = NotEquation (Assembled (Form 1 [])), unknown = 0, third = Some (BCSingle 1)\<rparr>"

text \<open>
  \<^verbatim>\<open>u.assign(u)\<close>, recorded: the AssignBlock and the state after its construction, and
  that state with the adjoint \<open>[1, 1]\<close> on the block's output.
\<close>

definition ex_self_assign :: "block \<times> state" where
  "ex_self_assign = AssignBlock_init 0 0 ex_init"

definition ex_self_assign_seeded :: state where
  "ex_self_assign_seeded = add_adj_output 8 (Vec [1, 1]) (snd ex_self_assign)"

text \<open>\<^verbatim>\<open>u_.assign(u)\<close>, recorded from the initial state, with the adjoint \<open>[1, 1]\<close> on its output.\<close>

definition ex_assign :: "block \<times> state" where
  "ex_assign = AssignBlock_init 1 0 ex_init"

definition ex_assign_seeded :: state where
  "ex_assign_seeded = add_adj_output 8 (Vec [1, 1]) (snd ex_assign)"

text \<open>
  \<^verbatim>\<open>u_.assign(u); u_.assign(u); w = Function(V); u_.assign(w, annotate_tape=False)\<close>:
  the second assignment checkpoints the output of the first, and the last one changes
  the live \<open>u_\<close> behind the tape's back. The first block recorded is
  \<open>ex_first_assign_block\<close>.
\<close>

definition ex_assigned_twice :: state where
  "ex_assigned_twice =
     (let s1 = assign 1 0 True ex_init;
          s2 = assign 1 0 True s1;
          (w, s3) = new_Function 7 s2
      in assign 1 w False s3)"

definition ex_first_assign_block :: block where
  "ex_first_assign_block = \<lparr>dependencies = [4, 3], outputs = [8]\<rparr>"

text \<open>
  The run of \<^verbatim>\<open>solve(F == 0, u, bc)\<close> from the initial state: the state it leaves, the
  block it records, that state with the adjoint \<open>[1, 1]\<close> accumulated on the block's
  output, and the Jacobian form the adjoint evaluation of the block assembles.
\<close>

definition ex_solved :: state where
  "ex_solved = (case solve ex_args True ex_init of Inr s \<Rightarrow> s | Inl e \<Rightarrow> ex_init)"

definition ex_block :: solve_block where
  "ex_block =
     \<lparr>dependencies = [5, 3, 4], outputs = [6], lhs = Form 0 [0, 1], rhs = Number 0,
      func = 0, bcs = [2], linear = False\<rparr>"

definition ex_seeded :: state where
  "ex_seeded = add_adj_output 6 (Vec [1, 1]) ex_solved"

definition ex_jacobian :: form where
  "ex_jacobian =
     Derivative (Replace (Form 0 [0, 1]) [(0, 0), (1, 1)]) 0 (TrialFunction 7)"

text \<open>
  The same for the linear \<^verbatim>\<open>solve(a == L, u, [bc])\<close>, with a zero written to the adjoint
  of the block's output.
\<close>

definition ex_linear_solved :: state where
  "ex_linear_solved =
     (case solve ex_linear_args True ex_init of Inr s \<Rightarrow> s | Inl e \<Rightarrow> ex_init)"

definition ex_linear_block :: solve_block where
  "ex_linear_block =
     \<lparr>dependencies = [4, 5], outputs = [6], lhs = Form 1 [], rhs = Form 2 [1],
      func = 0, bcs = [2], linear = True\<rparr>"

definition ex_linear_zero :: state where
  "ex_linear_zero = add_adj_output 6 (PyNum 0) ex_linear_solved"

section \<open>Reading blocks and traces\<close>

text \<open>\<^verbatim>\<open>get_outputs()\<close> of a block on the tape.\<close>

fun get_outputs :: "tape_entry \<Rightarrow> ref list" where
  "get_outputs (ASolveBlock b) = outputs b"
| "get_outputs (AnAssignBlock b) = outputs b"

text \<open>The trace entries that are backend solves, and those that are backend assemblies.\<close>

fun is_solve_call :: "event \<Rightarrow> bool" where
  "is_solve_call (CallSolveLinear A x b) = True"
| "is_solve_call (CallSolve a u t) = True"
| "is_solve_call e = False"

fun is_assemble_call :: "event \<Rightarrow> bool" where
  "is_assemble_call (CallAssemble f) = True"
| "is_assemble_call e = False"

text \<open>
  A state \<open>s\<close> reached from \<open>s0\<close> by steps that allocate, that write only objects
  allocated since \<open>s0\<close>, and that homogenize only such objects.
\<close>

definition frame :: "state \<Rightarrow> state \<Rightarrow> bool" where
  "frame s0 s \<longleftrightarrow>
     fresh s0 \<le> fresh s \<and> (\<forall>r. r < fresh s0 \<longrightarrow> objs s r = objs s0 r) \<and>
     (\<exists>evs. trace s = trace s0 @ evs \<and>
            (\<forall>r. CallHomogenize r \<in> set evs \<longrightarrow> fresh s0 \<le> r))"



section \<open>The linear case and the replacements in closed form\<close>







section \<open>Construction\<close>





text \<open>
  C8: when the first argument is not an equation the constructor raises
  \<^verbatim>\<open>NotImplementedError\<close>, and the annotated \<^verbatim>\<open>solve\<close> ends with that exception: no
  block reaches the tape and the backend is not called.
\<close>

theorem SolveBlock_init_not_equation:
  assumes "eq args = NotEquation A"
  shows "SolveBlock_init args s = Inl NotImplementedError \<and>
         solve args True s = Inl NotImplementedError"
  using assms by (simp add: SolveBlock_init_def solve_def)

theorem SolveBlock_init_not_equation_witness:
  "eq ex_matrix_args = NotEquation (Assembled (Form 1 [])) \<and>
   SolveBlock_init ex_matrix_args ex_init = Inl NotImplementedError \<and>
   solve ex_matrix_args True ex_init = Inl NotImplementedError"
  using SolveBlock_init_not_equation [of ex_matrix_args "Assembled (Form 1 [])" ex_init]
  by (simp add: ex_matrix_args_def)

section \<open>The order of the annotated solve\<close>

text \<open>
  C9, as the code has it: the annotated \<^verbatim>\<open>solve\<close> constructs the block, appends it to
  the tape, attaches the output BlockOutput and only then runs the forward backend
  solve; the tape entry carries the output.
\<close>

theorem solve_attaches_output_before_backend_solve:
  assumes "solve args True s = Inr s'"
  shows "trace s' = trace s @ [AddBlock, AddOutput (fresh s),
                               CallSolve (eq args) (unknown args) (third args)] \<and>
         (\<exists>b. SolveBlock_init args s = Inr b \<and>
              tape s' = tape s @ [ASolveBlock (b\<lparr>outputs := outputs b @ [fresh s]\<rparr>)])"
  using assms
  by (auto simp: solve_def Let_def call_def create_block_output_def backend_solve_def
      add_output_def split: sum.splits)

theorem solve_attaches_output_before_backend_solve_witness:
  "\<exists>s'. solve ex_args True ex_init = Inr s' \<and>
        trace s' = [AddBlock, AddOutput 6,
                    CallSolve (Equation (Form 0 [0, 1]) (Number 0)) 0 (Some (BCSingle 2))]"
proof -
  have "\<exists>s'. solve ex_args True ex_init = Inr s'"
    by (simp add: solve_def SolveBlock_init_def ex_args_def Let_def split: prod.splits)
  then obtain s' where run: "solve ex_args True ex_init = Inr s'" ..
  from solve_attaches_output_before_backend_solve [OF run]
  have "trace s' = [AddBlock, AddOutput 6,
                    CallSolve (Equation (Form 0 [0, 1]) (Number 0)) 0 (Some (BCSingle 2))]"
    by (simp add: ex_args_def ex_init_def)
  with run show ?thesis by blast
qed

text \<open>
  C9 as stated fails: in the run of \<^verbatim>\<open>solve(F == 0, u, bc)\<close> the output BlockOutput 6
  is attached before the forward solve, not after it.
\<close>

theorem solve_output_attached_first:
  "(case solve ex_args True ex_init of Inl e \<Rightarrow> [] | Inr s \<Rightarrow> trace s) =
     [AddBlock, AddOutput 6,
      CallSolve (Equation (Form 0 [0, 1]) (Number 0)) 0 (Some (BCSingle 2))]"
  by (simp add: solve_def SolveBlock_init_def ex_args_def ex_init_def add_dependency_def
      get_block_output_def Let_def call_def create_block_output_def backend_solve_def)

section \<open>AssignBlock: the adjoint\<close>

text \<open>
  C4, as the code has it: when the source and the prior target are different
  BlockOutputs, \<^verbatim>\<open>evaluate_adj\<close> adds the output's accumulated adjoint to the source's
  accumulator (which becomes that adjoint when it was at its zero) and leaves every
  other BlockOutput, the prior target among them, as it was.
\<close>

theorem AssignBlock_evaluate_adj_passes_to_source:
  assumes "dependencies b = tgt # src # ds" and "outputs b = out # rest" and "tgt \<noteq> src"
  shows "\<exists>s'. AssignBlock_evaluate_adj b s = Inr s' \<and>
           adj_value (bos s' src) = add_val (adj_value (bos s src)) (adj_value (bos s out)) \<and>
           (adj_value (bos s src) = PyNum 0 \<longrightarrow>
              adj_value (bos s' src) = adj_value (bos s out)) \<and>
           adj_value (bos s' tgt) = adj_value (bos s tgt) \<and>
           (\<forall>d. d \<noteq> src \<longrightarrow> bos s' d = bos s d) \<and> objs s' = objs s \<and> trace s' = trace s"
  using assms by (simp add: AssignBlock_evaluate_adj_def add_adj_output_def add_val_def)

lemma ex_assign_block: "fst ex_assign = \<lparr>dependencies = [4, 3], outputs = [8]\<rparr>"
  by (simp add: ex_assign_def AssignBlock_init_def ex_init_def add_dependency_def
      add_output_def get_block_output_def save_output_def create_checkpoint_def new_obj_def
      create_block_output_def call_def Let_def)

lemma ex_assign_seeded_adj:
  "adj_value (bos ex_assign_seeded 8) = Vec [1, 1] \<and>
   adj_value (bos ex_assign_seeded 3) = PyNum 0 \<and>
   adj_value (bos ex_assign_seeded 4) = PyNum 0"
  by (simp add: ex_assign_seeded_def ex_assign_def AssignBlock_init_def ex_init_def
      add_dependency_def add_output_def get_block_output_def save_output_def
      create_checkpoint_def new_obj_def create_block_output_def call_def Let_def
      add_adj_output_def add_val_def)

theorem AssignBlock_evaluate_adj_passes_to_source_witness:
  "\<exists>s'. AssignBlock_evaluate_adj (fst ex_assign) ex_assign_seeded = Inr s' \<and>
        adj_value (bos s' 3) = Vec [1, 1] \<and> adj_value (bos s' 4) = PyNum 0"
  using AssignBlock_evaluate_adj_passes_to_source
          [of "fst ex_assign" 4 3 "[]" 8 "[]" ex_assign_seeded]
        ex_assign_seeded_adj
  by (auto simp: ex_assign_block add_val_def)

text \<open>
  C4 as stated fails for \<^verbatim>\<open>u.assign(u)\<close>: both dependencies are the BlockOutput 3, the
  prior target is the source, and its accumulated adjoint goes from the zero it started
  at to the output's adjoint.
\<close>

theorem AssignBlock_self_assign_changes_prior_target:
  "dependencies (fst ex_self_assign) = [3, 3] \<and> outputs (fst ex_self_assign) = [8] \<and>
   adj_value (bos ex_self_assign_seeded 8) = Vec [1, 1] \<and>
   adj_value (bos ex_self_assign_seeded 3) = PyNum 0 \<and>
   (case AssignBlock_evaluate_adj (fst ex_self_assign) ex_self_assign_seeded of
      Inl e \<Rightarrow> PyNum 0 | Inr s \<Rightarrow> adj_value (bos s 3)) = Vec [1, 1]"
  by (simp add: ex_self_assign_def ex_self_assign_seeded_def AssignBlock_init_def ex_init_def
      add_dependency_def add_output_def get_block_output_def save_output_def
      create_checkpoint_def new_obj_def create_block_output_def call_def Let_def
      AssignBlock_evaluate_adj_def add_adj_output_def add_val_def)

section \<open>AssignBlock: recompute\<close>

text \<open>
  C6, as the code has it: \<^verbatim>\<open>AssignBlock.recompute\<close> copies the content of the source
  dependency's saved output into the saved output of the block's output, that is into
  the output's checkpoint when it has one and into the live value only when it has
  none; no other object is written.
\<close>

theorem AssignBlock_recompute_writes_saved_output:
  assumes "dependencies b = tgt # other_bo # ds" and "outputs b = out # rest"
  shows "\<exists>s'. AssignBlock_recompute b s = Inr s' \<and>
           vec (objs s' (get_saved_output (bos s out))) =
             vec (objs s (get_saved_output (bos s other_bo))) \<and>
           (\<forall>r. r \<noteq> get_saved_output (bos s out) \<longrightarrow> objs s' r = objs s r) \<and>
           trace s' = trace s @ [CallAssign (get_saved_output (bos s out))
                                   (get_saved_output (bos s other_bo))] \<and>
           get_saved_output (bos s out) =
             (case checkpoint (bos s out) of Some c \<Rightarrow> c | None \<Rightarrow> bo_output (bos s out))"
  using assms
  by (simp add: AssignBlock_recompute_def Function_assign_def call_def get_saved_output_def)

lemma ex_assigned_twice_state:
  "hd (tape ex_assigned_twice) = AnAssignBlock ex_first_assign_block \<and>
   bos ex_assigned_twice 8 = \<lparr>bo_output = 1, checkpoint = Some 9, adj_value = PyNum 0\<rparr> \<and>
   bos ex_assigned_twice 3 = \<lparr>bo_output = 0, checkpoint = Some 10, adj_value = PyNum 0\<rparr> \<and>
   vec (objs ex_assigned_twice 1) = ZeroVec 7 \<and>
   vec (objs ex_assigned_twice 10) = Vec [1, 2]"
  by (simp add: ex_assigned_twice_def ex_first_assign_block_def assign_def
      AssignBlock_init_def ex_init_def add_dependency_def add_output_def
      get_block_output_def save_output_def create_checkpoint_def new_obj_def
      create_block_output_def call_def Let_def Function_assign_def new_Function_def)

theorem AssignBlock_recompute_writes_saved_output_witness:
  "\<exists>s'. AssignBlock_recompute ex_first_assign_block ex_assigned_twice = Inr s' \<and>
        vec (objs s' 9) = Vec [1, 2] \<and> objs s' 1 = objs ex_assigned_twice 1"
  using AssignBlock_recompute_writes_saved_output
          [of ex_first_assign_block 4 3 "[]" 8 "[]" ex_assigned_twice]
        ex_assigned_twice_state
  by (auto simp: ex_first_assign_block_def get_saved_output_def)

text \<open>
  C6 as stated fails: after \<^verbatim>\<open>u_.assign(u); u_.assign(u)\<close> the output of the first block
  (BlockOutput 8, wrapping the live \<open>u_\<close>, object 1) has the checkpoint 9. Recomputing
  the first block copies the source's checkpointed value \<open>[1, 2]\<close> into object 9; the
  live \<open>u_\<close> keeps the content it had.
\<close>

theorem AssignBlock_recompute_leaves_live_value:
  "hd (tape ex_assigned_twice) = AnAssignBlock ex_first_assign_block \<and>
   bo_output (bos ex_assigned_twice 8) = 1 \<and>
   vec (objs ex_assigned_twice (get_saved_output (bos ex_assigned_twice 3))) = Vec [1, 2] \<and>
   (case AssignBlock_recompute ex_first_assign_block ex_assigned_twice of
      Inl e \<Rightarrow> False
    | Inr s \<Rightarrow> vec (objs s 1) = ZeroVec 7 \<and> vec (objs s 9) = Vec [1, 2] \<and>
              last (trace s) = CallAssign 9 10)"
  using ex_assigned_twice_state
  by (simp add: AssignBlock_recompute_def ex_first_assign_block_def get_saved_output_def
      Function_assign_def call_def)

section \<open>SolveBlock: the adjoint with a zero output adjoint\<close>

lemmas run_defs =
  solve_def SolveBlock_init_def add_dependency_def get_block_output_def Let_def call_def
  create_block_output_def backend_solve_def add_output_def solution_def bcs_of_def
  add_adj_output_def add_val_def new_Function_def new_obj_def collect_replaced_def
  get_saved_output_def homogenize_def solve_linear_def bc_rows_def adj_dependency_def
  SolveBlock_evaluate_adj_def

lemma SolveBlock_evaluate_adj_zero_run:
  assumes "outputs b = out # rest" and "is_zero (adj_value (bos s out))"
  shows "\<exists>s' F m. SolveBlock_evaluate_adj b s = Inr s' \<and> bos s' = bos s \<and>
           trace s' = trace s @ (if linear b then [CallAction (lhs b) (Suc (fresh s))] else []) @
             [CallReplace F m,
              CallDerivative (Replace F m) (get_saved_output (bos s out))
                (TrialFunction (space (objs s (bo_output (bos s out))))),
              CallAssemble (Derivative (Replace F m) (get_saved_output (bos s out))
                (TrialFunction (space (objs s (bo_output (bos s out))))))]"
  using assms
  by (simp add: SolveBlock_evaluate_adj_def Let_def new_Function_def new_obj_def call_def
      split: prod.splits)

lemma ex_solved_fields:
  "fresh ex_solved = 7"
  "tape ex_solved = [ASolveBlock ex_block]"
  "bos ex_solved 6 = \<lparr>bo_output = 0, checkpoint = None, adj_value = PyNum 0\<rparr>"
  "boundary_values (objs ex_solved 2) = [(0, 5)]"
  by (simp_all add: ex_block_def ex_solved_def ex_args_def ex_init_def solve_def
      SolveBlock_init_def add_dependency_def get_block_output_def Let_def call_def
      create_block_output_def backend_solve_def add_output_def)

lemma ex_seeded_fields:
  "fresh ex_seeded = 7"
  "bos ex_seeded 6 = \<lparr>bo_output = 0, checkpoint = None, adj_value = Vec [1, 1]\<rparr>"
  "boundary_values (objs ex_seeded 2) = [(0, 5)]"
  by (simp_all add: ex_seeded_def ex_solved_fields add_adj_output_def add_val_def)

lemma ex_linear_zero_fields:
  "fresh ex_linear_zero = 7"
  "tape ex_linear_zero = [ASolveBlock ex_linear_block]"
  "bos ex_linear_zero 6 = \<lparr>bo_output = 0, checkpoint = None, adj_value = PyNum 0\<rparr>"
  by (simp_all add: ex_linear_block_def ex_linear_zero_def ex_linear_solved_def
      ex_linear_args_def ex_init_def solve_def SolveBlock_init_def add_dependency_def
      get_block_output_def Let_def call_def create_block_output_def backend_solve_def
      add_output_def add_adj_output_def add_val_def)

text \<open>
  C2, as the code has it: when the accumulated adjoint of a block's output is the zero
  sentinel, \<^verbatim>\<open>evaluate_adj\<close> leaves every BlockOutput, so every dependency's accumulated
  adjoint, unchanged and invokes no backend solve. An AssignBlock calls nothing of the
  backend. A SolveBlock reaches its test only after it has differentiated and assembled
  the Jacobian: it has made exactly one backend assembly.
\<close>

theorem zero_adjoint_leaves_adjoints:
  assumes "get_outputs e = out # rest" and "adj_value (bos s out) = PyNum 0"
    and "evaluate_adj e s = Inr s'"
  shows "bos s' = bos s \<and>
         (\<exists>evs. trace s' = trace s @ evs \<and> filter is_solve_call evs = [] \<and>
            (case e of
               AnAssignBlock b \<Rightarrow> evs = []
             | ASolveBlock b \<Rightarrow> length (filter is_assemble_call evs) = 1))"
proof (cases e)
  case (ASolveBlock b)
  with assms(1) have out: "outputs b = out # rest" by simp
  from assms(2) have z: "is_zero (adj_value (bos s out))" by simp
  from SolveBlock_evaluate_adj_zero_run [OF out z] assms(3) ASolveBlock
  show ?thesis by auto
next
  case (AnAssignBlock b)
  with assms show ?thesis
    by (auto simp: AssignBlock_evaluate_adj_def add_adj_output_def add_val_def
        split: list.splits)
qed

theorem zero_adjoint_leaves_adjoints_witness:
  "\<exists>s'. evaluate_adj (ASolveBlock ex_block) ex_solved = Inr s' \<and> bos s' = bos ex_solved"
proof -
  have out: "get_outputs (ASolveBlock ex_block) = 6 # []" by (simp add: ex_block_def)
  have z: "adj_value (bos ex_solved 6) = PyNum 0" by (simp add: ex_solved_fields)
  have "\<exists>s'. evaluate_adj (ASolveBlock ex_block) ex_solved = Inr s'"
    using SolveBlock_evaluate_adj_zero_run [of ex_block 6 "[]" ex_solved] z
    by (auto simp: ex_block_def)
  then obtain s' where run: "evaluate_adj (ASolveBlock ex_block) ex_solved = Inr s'" ..
  from zero_adjoint_leaves_adjoints [OF out z run] run show ?thesis by blast
qed

text \<open>
  C2 as stated fails for a SolveBlock: with the zero sentinel on its output, the block
  recorded by \<^verbatim>\<open>solve(F == 0, u, bc)\<close> still has the backend assemble its Jacobian.
\<close>

theorem zero_adjoint_still_assembles:
  "get_outputs (ASolveBlock ex_block) = [6] \<and> adj_value (bos ex_solved 6) = PyNum 0 \<and>
   (case evaluate_adj (ASolveBlock ex_block) ex_solved of
      Inl e \<Rightarrow> [] | Inr s \<Rightarrow> filter is_assemble_call (trace s)) =
     [CallAssemble ex_jacobian]"
  by (simp add: ex_block_def ex_solved_def ex_args_def ex_init_def ex_jacobian_def run_defs)

text \<open>
  C3, as the code has it: when \<^verbatim>\<open>dJdu\<close> is a Python number equal to zero, the evaluation
  returns right after the Jacobian has been differentiated and assembled. The backend
  has been called for \<^verbatim>\<open>action\<close> (a linear block only), \<^verbatim>\<open>replace\<close>, \<^verbatim>\<open>derivative\<close> and
  \<^verbatim>\<open>assemble\<close>, and for nothing else: no boundary condition is homogenized or applied,
  nothing is transposed or solved, and no BlockOutput is changed.
\<close>

theorem SolveBlock_evaluate_adj_returns_after_assembly:
  assumes "outputs b = out # rest" and "is_zero (adj_value (bos s out))"
  shows "\<exists>s' F m. SolveBlock_evaluate_adj b s = Inr s' \<and> bos s' = bos s \<and>
           trace s' = trace s @ (if linear b then [CallAction (lhs b) (Suc (fresh s))] else []) @
             [CallReplace F m,
              CallDerivative (Replace F m) (get_saved_output (bos s out))
                (TrialFunction (space (objs s (bo_output (bos s out))))),
              CallAssemble (Derivative (Replace F m) (get_saved_output (bos s out))
                (TrialFunction (space (objs s (bo_output (bos s out))))))]"
  using assms by (rule SolveBlock_evaluate_adj_zero_run)

theorem SolveBlock_evaluate_adj_returns_after_assembly_witness:
  "\<exists>s'. SolveBlock_evaluate_adj ex_linear_block ex_linear_zero = Inr s' \<and>
        bos s' = bos ex_linear_zero \<and> length (trace s') = length (trace ex_linear_zero) + 4"
  using SolveBlock_evaluate_adj_returns_after_assembly [of ex_linear_block 6 "[]" ex_linear_zero]
  by (auto simp: ex_linear_block_def ex_linear_zero_fields)

text \<open>
  C3 as stated fails: with a zero written to the adjoint of its output, the block
  recorded by \<^verbatim>\<open>solve(a == L, u, [bc])\<close> has the backend differentiate and assemble the
  Jacobian before it returns.
\<close>

theorem zero_adjoint_assembles_before_return:
  "adj_value (bos ex_linear_zero 6) = PyNum 0 \<and>
   (case SolveBlock_evaluate_adj ex_linear_block ex_linear_zero of
      Inl e \<Rightarrow> [] | Inr s \<Rightarrow> drop (length (trace ex_linear_zero)) (trace s)) =
     [CallAction (Form 1 []) 8,
      CallReplace (Sub (Action (Form 1 []) 8) (Form 2 [1])) [(1, 1), (8, 0)],
      CallDerivative (Replace (Sub (Action (Form 1 []) 8) (Form 2 [1])) [(1, 1), (8, 0)]) 0
        (TrialFunction 7),
      CallAssemble
        (Derivative (Replace (Sub (Action (Form 1 []) 8) (Form 2 [1])) [(1, 1), (8, 0)]) 0
           (TrialFunction 7))]"
  by (simp add: ex_linear_block_def ex_linear_zero_def ex_linear_solved_def
      ex_linear_args_def ex_init_def run_defs)

section \<open>SolveBlock: boundary conditions in the adjoint\<close>

lemma frame_refl: "frame s s"
  by (simp add: frame_def)

lemma frame_call:
  assumes "frame s0 s" and "\<And>r. e = CallHomogenize r \<Longrightarrow> fresh s0 \<le> r"
  shows "frame s0 (call e s)"
  using assms by (auto simp: frame_def call_def)

lemma frame_new_obj:
  assumes "frame s0 s" and "new_obj x s = (r, s')"
  shows "frame s0 s' \<and> fresh s0 \<le> r"
  using assms by (auto simp: frame_def new_obj_def)

lemma frame_new_Function:
  assumes "frame s0 s" and "new_Function V s = (r, s')"
  shows "frame s0 s' \<and> fresh s0 \<le> r"
  using assms unfolding new_Function_def by (rule frame_new_obj)

lemma frame_homogenize:
  assumes "frame s0 s" and "fresh s0 \<le> c"
  shows "frame s0 (homogenize c s)"
  using assms by (auto simp: frame_def homogenize_def call_def)

lemma frame_solve_linear:
  assumes "frame s0 s" and "fresh s0 \<le> x"
  shows "frame s0 (solve_linear A x b s)"
  using assms by (auto simp: frame_def solve_linear_def call_def)

lemma frame_add_adj_output:
  assumes "frame s0 s"
  shows "frame s0 (add_adj_output d v s)"
  using assms by (auto simp: frame_def add_adj_output_def)

lemma frame_apply_bcs:
  assumes "frame s0 s" and "apply_bcs xs (s, l, d) = (s', l', d')"
  shows "frame s0 s'"
  using assms
proof (induction xs arbitrary: s l d)
  case Nil
  then show ?case by simp
next
  case (Cons bc xs)
  show ?case
  proof (cases "kind (objs s bc) = KDirichletBC")
    case True
    obtain c s1 where n: "new_obj (objs s bc) s = (c, s1)" by (cases "new_obj (objs s bc) s")
    from frame_new_obj [OF Cons.prems(1) n] have f1: "frame s0 s1" and c: "fresh s0 \<le> c" by simp_all
    have f2: "frame s0 (call (CallApply c d) (homogenize c s1))"
      by (rule frame_call [OF frame_homogenize [OF f1 c]]) simp
    from Cons.prems(2) True n
    have "apply_bcs xs (call (CallApply c d) (homogenize c s1), l @ [c],
            Applied (boundary_values (objs (homogenize c s1) c)) d) = (s', l', d')"
      by simp
    from Cons.IH [OF f2 this] show ?thesis .
  next
    case False
    have f2: "frame s0 (call (CallApply bc d) s)"
      by (rule frame_call [OF Cons.prems(1)]) simp
    from Cons.prems(2) False
    have "apply_bcs xs (call (CallApply bc d) s, l @ [bc],
            Applied (boundary_values (objs s bc)) d) = (s', l', d')"
      by simp
    from Cons.IH [OF f2 this] show ?thesis .
  qed
qed

lemma frame_apply_fold:
  assumes "frame s0 s"
  shows "frame s0 (fst (foldl (\<lambda>(st, v) bc. (call (CallApply bc v) st,
                                 Applied (boundary_values (objs st bc)) v)) (s, v) xs))"
  using assms
proof (induction xs arbitrary: s v)
  case Nil
  then show ?case by simp
next
  case (Cons bc xs)
  have "frame s0 (call (CallApply bc v) s)"
    by (rule frame_call [OF Cons.prems]) simp
  from Cons.IH [OF this] show ?case by simp
qed

lemma frame_call_other:
  assumes "frame s0 s" and "(case e of CallHomogenize r \<Rightarrow> False | _ \<Rightarrow> True)"
  shows "frame s0 (call e s)"
  using assms by (auto simp: frame_def call_def split: event.splits)

lemma frame_adj_dependency:
  assumes "frame s0 s"
  shows "frame s0 (adj_dependency F m bcs' adj_var V fn s d)"
proof (cases "bo_output (bos s d) = fn")
  case True
  with assms show ?thesis by (simp add: adj_dependency_def)
next
  case False
  show ?thesis
  proof (cases "kind (objs s (bo_output (bos s d)))")
    case KFunction
    with False show ?thesis
      by (simp add: adj_dependency_def Let_def)
         (intro frame_add_adj_output frame_call_other assms; simp)
  next
    case KConstant
    define s2 where "s2 = call (CallAssemble (Negated (Derivative F (bo_output (bos s d)) ConstantOne)))
                 (call (CallDerivative F (bo_output (bos s d)) ConstantOne) s)"
    have f2: "frame s0 s2"
      unfolding s2_def by (intro frame_call_other assms) simp_all
    define res where "res = foldl (\<lambda>(st, v) bc. (call (CallApply bc v) st,
                                 Applied (boundary_values (objs st bc)) v))
                 (s2, Assembled (Negated (Derivative F (bo_output (bos s d)) ConstantOne))) bcs'"
    obtain s3 dFdm where "res = (s3, dFdm)" by (cases res)
    then have fo: "foldl (\<lambda>(st, v) bc. (call (CallApply bc v) st,
                                 Applied (boundary_values (objs st bc)) v))
                 (s2, Assembled (Negated (Derivative F (bo_output (bos s d)) ConstantOne))) bcs' = (s3, dFdm)"
      by (simp add: res_def)
    from frame_apply_fold [OF f2, of "Assembled (Negated (Derivative F (bo_output (bos s d)) ConstantOne))" bcs'] fo
    have "frame s0 s3" by simp
    then have "frame s0 (add_adj_output d (Inner dFdm (vec (objs s3 adj_var))) s3)"
      by (rule frame_add_adj_output)
    with False KConstant fo show ?thesis
      by (simp add: adj_dependency_def Let_def s2_def)
  next
    case KDirichletBC
    obtain r s1 where n: "new_Function V s = (r, s1)" by (cases "new_Function V s")
    from frame_new_Function [OF assms n] have f1: "frame s0 s1" and r: "fresh s0 \<le> r" by simp_all
    have "frame s0 (add_adj_output d v ((call (CallApplyNew V g sd tv) s1)\<lparr>objs := (objs s1)(r := x)\<rparr>))" for g sd tv x v
      using f1 r by (auto simp: frame_def call_def add_adj_output_def)
    with False KDirichletBC n show ?thesis
      by (simp add: adj_dependency_def Let_def)
  next
    case KExpression
    with False show ?thesis
      by (simp add: adj_dependency_def Let_def)
         (intro frame_add_adj_output frame_call_other assms; simp)
  next
    case KOther
    with False assms show ?thesis by (simp add: adj_dependency_def)
  qed
qed

lemma frame_foldl_adj_dependency:
  assumes "frame s0 s"
  shows "frame s0 (foldl (adj_dependency F m bcs' adj_var V fn) s ds)"
  using assms by (induction ds arbitrary: s) (simp_all add: frame_adj_dependency)

lemma frame_SolveBlock_evaluate_adj:
  assumes "SolveBlock_evaluate_adj b s = Inr s'"
  shows "frame s s'"
proof (cases "outputs b")
  case Nil
  with assms show ?thesis by (simp add: SolveBlock_evaluate_adj_def)
next
  case (Cons out rest)
  define V where "V = space (objs s (bo_output (bos s out)))"
  obtain adj_var s1 where n1: "new_Function V s = (adj_var, s1)" by (cases "new_Function V s")
  from frame_new_Function [OF frame_refl n1] have f1: "frame s s1" and a: "fresh s \<le> adj_var" by simp_all
  define pre where "pre =
     (if linear b
      then (let (t, s0) = new_Function (space (objs s1 (func b))) s1
            in (t, Sub (Action (lhs b) t) (rhs b), call (CallAction (lhs b) t) s0))
      else (func b, lhs b, s1))"
  obtain tmp_u F_form s2 where p2: "pre = (tmp_u, F_form, s2)" by (cases pre)
  have f2: "frame s s2"
  proof (cases "linear b")
    case True
    obtain t s0 where n2: "new_Function (space (objs s1 (func b))) s1 = (t, s0)"
      by (cases "new_Function (space (objs s1 (func b))) s1")
    from frame_new_Function [OF f1 n2] have "frame s s0" by simp
    then have "frame s (call (CallAction (lhs b) t) s0)" by (rule frame_call_other) simp
    with p2 True n2 show ?thesis by (auto simp: pre_def)
  next
    case False
    with p2 f1 show ?thesis by (simp add: pre_def)
  qed
  define saved where "saved = get_saved_output (bos s2 out)"
  define m where "m = AList.update tmp_u saved (collect_replaced s2 F_form (dependencies b))"
  define J where "J = Derivative (Replace F_form m) saved (TrialFunction V)"
  define s5 where "s5 = call (CallAssemble J) (call (CallDerivative (Replace F_form m) saved (TrialFunction V))
                          (call (CallReplace F_form m) s2))"
  have f5: "frame s s5"
    unfolding s5_def by (intro frame_call_other f2) simp_all
  show ?thesis
  proof (cases "is_zero (adj_value (bos s5 out))")
    case True
    with assms Cons n1 p2 have "s' = s5"
      by (simp add: SolveBlock_evaluate_adj_def Let_def V_def s5_def J_def m_def saved_def pre_def)
    with f5 show ?thesis by simp
  next
    case False
    define res where "res = apply_bcs (bcs b) (s5, [], Assembled J)"
    obtain s6 bcs' dFdu where ab: "res = (s6, bcs', dFdu)" by (cases res)
    from frame_apply_bcs [OF f5, of "bcs b" "[]" "Assembled J" s6 bcs' dFdu] ab
    have f6: "frame s s6" by (simp add: res_def)
    have f8: "frame s (solve_linear (Transposed dFdu) adj_var (adj_value (bos s5 out)) (call (CallTranspose dFdu) s6))"
      by (intro frame_solve_linear frame_call_other f6 a) simp
    from assms Cons n1 p2 False ab
    have "s' = foldl (adj_dependency (Replace F_form m) m bcs' adj_var V (func b))
                 (solve_linear (Transposed dFdu) adj_var (adj_value (bos s5 out)) (call (CallTranspose dFdu) s6))
                 (dependencies b)"
      by (simp add: SolveBlock_evaluate_adj_def Let_def V_def s5_def J_def m_def saved_def pre_def res_def)
    with frame_foldl_adj_dependency [OF f8] show ?thesis by simp
  qed
qed

lemma SolveBlock_evaluate_adj_returns:
  assumes "outputs b = out # rest"
  shows "\<exists>s'. SolveBlock_evaluate_adj b s = Inr s'"
  using assms by (simp add: SolveBlock_evaluate_adj_def Let_def split: prod.splits)

text \<open>
  C10: \<^verbatim>\<open>SolveBlock.evaluate_adj\<close> returns with every boundary condition recorded on the
  block, and every other object that existed before, as it was: the objects it
  homogenizes are all allocated during the evaluation (the copies made by
  \<^verbatim>\<open>backend.DirichletBC(bc)\<close>).
\<close>

theorem SolveBlock_evaluate_adj_keeps_bcs:
  assumes "outputs b = out # rest" and "\<forall>bc \<in> set (bcs b). bc < fresh s"
  shows "\<exists>s' evs. SolveBlock_evaluate_adj b s = Inr s' \<and>
           (\<forall>bc \<in> set (bcs b). objs s' bc = objs s bc) \<and>
           (\<forall>r. r < fresh s \<longrightarrow> objs s' r = objs s r) \<and>
           trace s' = trace s @ evs \<and> (\<forall>r. CallHomogenize r \<in> set evs \<longrightarrow> fresh s \<le> r)"
proof -
  from SolveBlock_evaluate_adj_returns [OF assms(1)]
  obtain s' where run: "SolveBlock_evaluate_adj b s = Inr s'" by blast
  from frame_SolveBlock_evaluate_adj [OF run] assms(2) run show ?thesis
    by (auto simp: frame_def)
qed

theorem SolveBlock_evaluate_adj_keeps_bcs_witness:
  "\<exists>s'. SolveBlock_evaluate_adj ex_block ex_seeded = Inr s' \<and>
        boundary_values (objs s' 2) = [(0, 5)]"
  using SolveBlock_evaluate_adj_keeps_bcs [of ex_block 6 "[]" ex_seeded]
  by (auto simp: ex_block_def ex_seeded_fields)

text \<open>
  C1 at a concrete block: the adjoint evaluation of the block recorded by
  \<^verbatim>\<open>solve(F == 0, u, bc)\<close>, with the adjoint \<open>[1, 1]\<close> on its output. The copy of the
  boundary condition (object 8) is homogenized and applied once, to the assembled
  Jacobian before it is transposed; the right-hand side handed to the backend solve is
  \<open>[1, 1]\<close> as it was read, with no boundary condition applied to it.
\<close>

theorem SolveBlock_evaluate_adj_solves_with_raw_adjoint:
  "(case SolveBlock_evaluate_adj ex_block ex_seeded of
      Inl e \<Rightarrow> [] | Inr s \<Rightarrow> take 7 (drop 3 (trace s))) =
     [CallReplace (Form 0 [0, 1]) [(0, 0), (1, 1)],
      CallDerivative (Replace (Form 0 [0, 1]) [(0, 0), (1, 1)]) 0 (TrialFunction 7),
      CallAssemble ex_jacobian,
      CallHomogenize 8,
      CallApply 8 (Assembled ex_jacobian),
      CallTranspose (Applied [(0, 0)] (Assembled ex_jacobian)),
      CallSolveLinear (Transposed (Applied [(0, 0)] (Assembled ex_jacobian))) (ZeroVec 7)
        (Vec [1, 1])]"
  by (simp add: ex_block_def ex_seeded_def ex_solved_def ex_args_def ex_init_def
      ex_jacobian_def run_defs)

section \<open>SolveBlock: recompute\<close>



lemma recompute_step_cong:
  assumes "bos s1 d = bos s d"
  shows "recompute_step b s1 acc d = recompute_step b s acc d"
  using assms by (simp add: recompute_step_def)

lemma foldl_recompute_step_cong:
  assumes "\<forall>d \<in> set ds. bos s1 d = bos s d"
  shows "foldl (recompute_step b s1) acc ds = foldl (recompute_step b s) acc ds"
  using assms
proof (induction ds arbitrary: acc)
  case Nil
  show ?case by simp
next
  case (Cons d ds)
  from Cons.prems have "recompute_step b s1 acc d = recompute_step b s acc d"
    by (intro recompute_step_cong) simp
  moreover from Cons.prems have "\<forall>d \<in> set ds. bos s1 d = bos s d" by simp
  ultimately show ?case using Cons.IH by simp
qed




lemma SolveBlock_recompute_fields:
  assumes "outputs b = out # rest"
    and "recompute_loop b s = (fn, ml, mr)"
  shows "\<exists>s1. SolveBlock_recompute b s = Inr s1 \<and>
           objs s1 = (objs s)
             (fn := (objs s fn)\<lparr>vec := solution
                       (Equation (Replace (lhs b) ml)
                          (if linear b then Replace (rhs b) mr else Number 0))
                       fn (Some (BCList (bcs b))) s\<rparr>,
              fresh s := (objs s fn)\<lparr>vec := solution
                       (Equation (Replace (lhs b) ml)
                          (if linear b then Replace (rhs b) mr else Number 0))
                       fn (Some (BCList (bcs b))) s\<rparr>) \<and>
           bos s1 = (bos s)(out := (bos s out)\<lparr>checkpoint := Some (fresh s)\<rparr>) \<and>
           fresh s1 = Suc (fresh s) \<and>
           trace s1 = trace s @ [CallReplace (lhs b) ml] @
             (if linear b then [CallReplace (rhs b) mr] else []) @
             [CallSolve (Equation (Replace (lhs b) ml)
                          (if linear b then Replace (rhs b) mr else Number 0))
                fn (Some (BCList (bcs b)))]"
  using assms
  by (simp add: SolveBlock_recompute_def Let_def call_def backend_solve_def
      create_checkpoint_def new_obj_def solution_def)







text \<open>
  Why the replay is stated for a function that is not a coefficient of the rebuilt
  equation. When it is one (a nonlinear residual: the content of the unknown is the
  initial guess), the first \<^verbatim>\<open>recompute\<close> overwrites that content, so the second one
  hands the backend other data; with the backend's result kept as the term of the data
  it was given, the second checkpoint differs from the first.
\<close>

lemma EqSolved_not_member:
  assumes "x \<in> set xs"
  shows "EqSolved l r xs bs \<noteq> x"
proof
  assume e: "EqSolved l r xs bs = x"
  from assms have "size x \<le> size_list size xs"
    by (rule size_list_estimation') simp
  also have "\<dots> < size (EqSolved l r xs bs)" by simp
  finally show False using e by simp
qed

lemma solution_not_coefficient:
  assumes "c \<in> set (coefficients l @ coefficients r)"
  shows "solution (Equation l r) u t s \<noteq> vec (objs s c)"
proof -
  from assms have "vec (objs s c) \<in> set (map (\<lambda>c. vec (objs s c)) (coefficients l @ coefficients r))"
    by (simp add: image_iff) blast
  from EqSolved_not_member [OF this] show ?thesis
    by (simp add: solution_def)
qed

lemma SolveBlock_recompute_initial_guess:
  assumes out: "outputs b = out # rest"
    and plan: "recompute_loop b s = (fn, ml, mr)"
    and rhs': "rhs' = (if linear b then Replace (rhs b) mr else Number 0)"
    and coeff: "fn \<in> set (coefficients (Replace (lhs b) ml) @ coefficients rhs')"
    and nodep: "out \<notin> set (dependencies b)"
  shows "\<exists>s1 s2. SolveBlock_recompute b s = Inr s1 \<and> SolveBlock_recompute b s1 = Inr s2 \<and>
           vec (objs s1 fn) \<noteq> vec (objs s fn) \<and>
           checkpoint (bos s1 out) = Some (fresh s) \<and>
           checkpoint (bos s2 out) = Some (fresh s1) \<and>
           vec (objs s2 (fresh s1)) \<noteq> vec (objs s1 (fresh s))"
proof -
  define E where "E = Equation (Replace (lhs b) ml) rhs'"
  define t where "t = Some (BCList (bcs b))"
  from SolveBlock_recompute_fields [OF out plan] rhs'
  obtain s1 where run1: "SolveBlock_recompute b s = Inr s1"
    and objs1: "objs s1 = (objs s)(fn := (objs s fn)\<lparr>vec := solution E fn t s\<rparr>,
                                  fresh s := (objs s fn)\<lparr>vec := solution E fn t s\<rparr>)"
    and bos1: "bos s1 = (bos s)(out := (bos s out)\<lparr>checkpoint := Some (fresh s)\<rparr>)"
    unfolding E_def t_def by auto
  from plan have fold: "foldl (recompute_step b s) (func b, [], []) (dependencies b) = (fn, ml, mr)"
    by (simp add: recompute_loop_def)
  from nodep have "\<forall>d \<in> set (dependencies b). bos s1 d = bos s d"
    by (auto simp: bos1)
  from foldl_recompute_step_cong [OF this] fold
  have plan1: "recompute_loop b s1 = (fn, ml, mr)"
    by (simp add: recompute_loop_def)
  from SolveBlock_recompute_fields [OF out plan1] rhs'
  obtain s2 where run2: "SolveBlock_recompute b s1 = Inr s2"
    and objs2: "objs s2 = (objs s1)(fn := (objs s1 fn)\<lparr>vec := solution E fn t s1\<rparr>,
                                  fresh s1 := (objs s1 fn)\<lparr>vec := solution E fn t s1\<rparr>)"
    and bos2: "bos s2 = (bos s1)(out := (bos s1 out)\<lparr>checkpoint := Some (fresh s1)\<rparr>)"
    unfolding E_def t_def by auto
  have v1: "vec (objs s1 fn) = solution E fn t s" and v1': "vec (objs s1 (fresh s)) = solution E fn t s"
    by (simp_all add: objs1)
  have first: "vec (objs s1 fn) \<noteq> vec (objs s fn)"
    unfolding v1 E_def by (rule solution_not_coefficient [OF coeff])
  have "solution E fn t s1 \<noteq> solution E fn t s"
  proof
    assume "solution E fn t s1 = solution E fn t s"
    then have "map (\<lambda>c. vec (objs s1 c)) (coefficients (Replace (lhs b) ml) @ coefficients rhs') =
               map (\<lambda>c. vec (objs s c)) (coefficients (Replace (lhs b) ml) @ coefficients rhs')"
      by (simp add: solution_def E_def)
    with coeff have "vec (objs s1 fn) = vec (objs s fn)"
      by (meson map_eq_conv)
    with first show False by simp
  qed
  then have "vec (objs s2 (fresh s1)) \<noteq> vec (objs s1 (fresh s))"
    by (simp add: objs2 v1')
  with run1 run2 first show ?thesis
    by (auto simp: bos1 bos2)
qed






end
